theory Spec2Isabelle
  imports Main "HOL-Library.Char_ord" "HOL-Library.List_Lexorder"
begin

section \<open>Python values and exceptions\<close>

text \<open>
  Every exception the modelled functions can raise is a value of \<open>error\<close>; a function
  that can raise returns \<open>error + 'a\<close>, with \<open>Inl\<close> for the raised exception.
  \<open>ValidationError\<close> carries its message; \<open>ValidationErrorDict\<close> is the
  \<open>ValidationError\<close> whose detail is a dict, with one entry for each of the listed keys.
\<close>

datatype error =
    ValidationError string
  | ValidationErrorDict "string list"
  | ValueError
  | KeyError string
  | DecodeError
  | InvalidSignatureError
  | ExpiredSignatureError
  | InvalidTokenError
  | DoesNotExist
  | MultipleObjectsReturned
  | IntegrityError
  | SendError

text \<open>
  A Python dict with string keys is an association list in insertion order;
  \<open>d[k]\<close> is \<open>map_of d k\<close> and raises \<open>KeyError\<close> where that is \<open>None\<close>; two dicts are
  equal (\<open>==\<close>) when their \<open>map_of\<close> agree.
\<close>

type_synonym 'v dict = "(string \<times> 'v) list"

definition getitem :: "'v dict \<Rightarrow> string \<Rightarrow> error + 'v" where
  "getitem d k = (case map_of d k of None \<Rightarrow> Inl (KeyError k) | Some v \<Rightarrow> Inr v)"

text \<open>
  A value of a request body or of a decoded token: JSON null, a boolean, an integer or
  a string, with Python's truth value.
\<close>

datatype jv = JNull | JBool bool | JInt int | JStr string

definition truthy :: "jv \<Rightarrow> bool" where
  "truthy v =
     (case v of JNull \<Rightarrow> False | JBool b \<Rightarrow> b | JInt i \<Rightarrow> i \<noteq> 0 | JStr s \<Rightarrow> s \<noteq> [])"

definition is_ValidationError :: "error \<Rightarrow> bool" where
  "is_ValidationError e =
     (case e of ValidationError msg \<Rightarrow> True | ValidationErrorDict ks \<Rightarrow> True | _ \<Rightarrow> False)"

section \<open>PermissionsField (core/serializers.py)\<close>

definition perm_keys :: "string list" where
  "perm_keys = [''create'', ''read'', ''update'', ''delete'']"

subsection \<open>Python's binary formatting and parsing\<close>

definition digit_char :: "nat \<Rightarrow> char" where
  "digit_char b = (if b = 0 then CHR ''0'' else CHR ''1'')"

text \<open>The digits of \<open>'{0:b}'.format(n)\<close> for \<open>n \<ge> 0\<close>.\<close>

fun bin_digits :: "nat \<Rightarrow> string" where
  "bin_digits n = (if n < 2 then [digit_char n] else bin_digits (n div 2) @ [digit_char (n mod 2)])"

declare bin_digits.simps [simp del]

definition zfill :: "nat \<Rightarrow> string \<Rightarrow> string" where
  "zfill w s = replicate (w - length s) (CHR ''0'') @ s"

text \<open>\<open>'{0:b}'.format(v)\<close>: a minus sign, then the digits of the absolute value.\<close>

definition format_b :: "int \<Rightarrow> string" where
  "format_b v = (if v < 0 then CHR ''-'' # bin_digits (nat (- v)) else bin_digits (nat v))"

text \<open>
  \<open>'{0:04b}'.format(v)\<close>: zero padding to width 4 goes between the sign and the digits,
  and the sign counts in the width.
\<close>

definition format_04b :: "int \<Rightarrow> string" where
  "format_04b v =
     (if v < 0 then CHR ''-'' # zfill 3 (bin_digits (nat (- v))) else zfill 4 (bin_digits (nat v)))"

text \<open>\<open>int(c)\<close> on a one-character string: a decimal digit, or \<open>ValueError\<close>.\<close>

definition int_of_char :: "char \<Rightarrow> error + int" where
  "int_of_char c =
     (if c = CHR ''0'' then Inr 0 else if c = CHR ''1'' then Inr 1
      else if c = CHR ''2'' then Inr 2 else if c = CHR ''3'' then Inr 3
      else if c = CHR ''4'' then Inr 4 else if c = CHR ''5'' then Inr 5
      else if c = CHR ''6'' then Inr 6 else if c = CHR ''7'' then Inr 7
      else if c = CHR ''8'' then Inr 8 else if c = CHR ''9'' then Inr 9
      else Inl ValueError)"

text \<open>
  \<open>zip(self._keys, map(bool, map(int, permissions)))\<close>: both maps are lazy, so \<open>zip\<close>
  takes a key first and only then converts the next character; it stops when the keys
  run out, without converting the characters that remain.
\<close>

fun zip_bool_int :: "string list \<Rightarrow> string \<Rightarrow> error + bool dict" where
  "zip_bool_int [] cs = Inr []"
| "zip_bool_int (k # ks) [] = Inr []"
| "zip_bool_int (k # ks) (c # cs) =
     (case int_of_char c of
        Inl e \<Rightarrow> Inl e
      | Inr i \<Rightarrow> (case zip_bool_int ks cs of
                    Inl e \<Rightarrow> Inl e
                  | Inr r \<Rightarrow> Inr ((k, i \<noteq> 0) # r)))"

text \<open>\<open>str(int(b))\<close> for a boolean \<open>b\<close>.\<close>

definition str_int_bool :: "bool \<Rightarrow> string" where
  "str_int_bool b = (if b then ''1'' else ''0'')"

text \<open>
  \<open>int(s, 2)\<close> on a string of binary digits, most significant first; any other character
  and the empty string raise \<open>ValueError\<close>.
\<close>

fun int_base2_acc :: "int \<Rightarrow> string \<Rightarrow> error + int" where
  "int_base2_acc acc [] = Inr acc"
| "int_base2_acc acc (c # cs) =
     (if c = CHR ''0'' then int_base2_acc (2 * acc) cs
      else if c = CHR ''1'' then int_base2_acc (2 * acc + 1) cs
      else Inl ValueError)"

definition int_base2 :: "string \<Rightarrow> error + int" where
  "int_base2 s = (if s = [] then Inl ValueError else int_base2_acc 0 s)"

subsection \<open>The field\<close>

text \<open>
  \<open>to_representation\<close> (decode): the stored integer, replaced by 15 unless it is below 16,
  is formatted as four binary digits and zipped with the keys.
\<close>

definition to_representation :: "int \<Rightarrow> error + bool dict" where
  "to_representation v = zip_bool_int perm_keys (format_04b (if v < 16 then v else 15))"

text \<open>
  The field is a \<open>DictField\<close> whose child is a \<open>BooleanField\<close>
  (\<open>kwargs['child'] = serializers.BooleanField()\<close>). The child accepts the members of
  its \<open>TRUE_VALUES\<close> and \<open>FALSE_VALUES\<close> and raises \<open>ValidationError\<close> on null and on
  everything else; \<open>None\<close> stands for the raise.
\<close>

definition TRUE_VALUES :: "string list" where
  "TRUE_VALUES =
     [''t'', ''T'', ''y'', ''Y'', ''yes'', ''YES'', ''true'', ''True'', ''TRUE'',
      ''on'', ''On'', ''ON'', ''1'']"

definition FALSE_VALUES :: "string list" where
  "FALSE_VALUES =
     [''f'', ''F'', ''n'', ''N'', ''no'', ''NO'', ''false'', ''False'', ''FALSE'',
      ''off'', ''Off'', ''OFF'', ''0'']"

definition BooleanField :: "jv \<Rightarrow> bool option" where
  "BooleanField data =
     (case data of
        JNull \<Rightarrow> None
      | JBool b \<Rightarrow> Some b
      | JInt i \<Rightarrow> (if i = 1 then Some True else if i = 0 then Some False else None)
      | JStr s \<Rightarrow> (if s \<in> set TRUE_VALUES then Some True
                   else if s \<in> set FALSE_VALUES then Some False else None))"

text \<open>
  \<open>DictField.run_child_validation\<close>: every value goes through the child; the result
  keeps the validated items, the errors the keys whose value the child refused.
\<close>

fun run_child_validation :: "jv dict \<Rightarrow> bool dict \<times> string list" where
  "run_child_validation [] = ([], [])"
| "run_child_validation ((key, val) # rest) =
     (case run_child_validation rest of
        (result, errors) \<Rightarrow>
          (case BooleanField val of
             None \<Rightarrow> (result, key # errors)
           | Some b \<Rightarrow> ((key, b) # result, errors)))"

text \<open>\<open>DictField.to_internal_value\<close>, the \<open>super().to_internal_value(data)\<close> of the field.\<close>

definition DictField_to_internal_value :: "jv dict \<Rightarrow> error + bool dict" where
  "DictField_to_internal_value data =
     (case run_child_validation data of
        (result, errors) \<Rightarrow> if errors = [] then Inr result else Inl (ValidationErrorDict errors))"

text \<open>\<open>to_internal_value\<close> (encode), on the dict of the request body.\<close>

fun join_bits :: "bool dict \<Rightarrow> string list \<Rightarrow> error + string" where
  "join_bits d [] = Inr []"
| "join_bits d (k # ks) =
     (case getitem d k of
        Inl e \<Rightarrow> Inl e
      | Inr b \<Rightarrow> (case join_bits d ks of Inl e \<Rightarrow> Inl e | Inr s \<Rightarrow> Inr (str_int_bool b @ s)))"

definition to_internal_value :: "jv dict \<Rightarrow> error + int" where
  "to_internal_value data =
     (case DictField_to_internal_value data of
        Inl e \<Rightarrow> Inl e
      | Inr d \<Rightarrow>
          (if \<not> (set (map fst d) = set perm_keys)
           then Inl (ValidationError ''Permissions field: incorrect keys format'')
           else (case join_bits d perm_keys of Inl e \<Rightarrow> Inl e | Inr s \<Rightarrow> int_base2 s)))"

text \<open>\<open>CoreGroup.display_permissions\<close> (workflow/models.py).\<close>

definition display_permissions :: "int \<Rightarrow> string" where
  "display_permissions permissions = format_b (if permissions < 16 then permissions else 15)"

section \<open>Stored records\<close>

text \<open>
  The rows the serializers and views read and write, with the fields they use.
  \<open>CoreGroup\<close> has the fields \<open>CoreGroupSerializer\<close> lists; a many-to-many relation is
  the list of primary keys on the owning row. \<open>username\<close> is the unique column of
  \<open>AbstractUser\<close>.
\<close>

record organization =
  org_pk :: nat
  organization_uuid :: string
  org_name :: string

record core_group =
  grp_pk :: nat
  grp_name :: string
  grp_organization :: "nat option"
  is_global :: bool
  is_org_level :: bool
  permissions :: int

record core_user =
  usr_pk :: nat
  username :: string
  first_name :: string
  email :: string
  password :: string
  is_active :: bool
  usr_organization :: "nat option"
  core_groups :: "nat list"

record email_template =
  tpl_organization :: nat
  tpl_type :: nat
  tpl_subject :: string
  tpl_template :: "string option"
  tpl_template_html :: "string option"

text \<open>
  \<open>auth_user_groups\<close> is the inherited \<open>groups\<close> relation of \<open>AbstractUser\<close>, joined with
  the group's name: a row \<open>(user pk, group name)\<close> per membership.
\<close>

record store =
  organizations :: "organization list"
  coregroups :: "core_group list"
  coreusers :: "core_user list"
  emailtemplates :: "email_template list"
  auth_user_groups :: "(nat \<times> string) list"

text \<open>The next primary key of an auto-increment column.\<close>

definition next_pk :: "nat list \<Rightarrow> nat" where
  "next_pk pks = Suc (fold max pks 0)"

text \<open>\<open>queryset.get()\<close>: the only match, or \<open>DoesNotExist\<close>, or \<open>MultipleObjectsReturned\<close>.\<close>

definition qs_get :: "'a list \<Rightarrow> error + 'a" where
  "qs_get rows = (case rows of [] \<Rightarrow> Inl DoesNotExist | [r] \<Rightarrow> Inr r | _ \<Rightarrow> Inl MultipleObjectsReturned)"

text \<open>\<open>queryset.first()\<close>.\<close>

definition qs_first :: "'a list \<Rightarrow> 'a option" where
  "qs_first rows = (case rows of [] \<Rightarrow> None | r # _ \<Rightarrow> Some r)"

definition TEMPLATE_RESET_PASSWORD :: nat where
  "TEMPLATE_RESET_PASSWORD = 1"

definition ROLE_ORGANIZATION_ADMIN :: string where
  "ROLE_ORGANIZATION_ADMIN = ''OrgAdmin''"

text \<open>
  Modelled from the spec: \<open>PERMISSIONS_ORG_ADMIN\<close> is imported from \<open>core.models\<close>, which is
  not among the sources; the spec gives the org-admin group the full mask 1111.
\<close>

definition PERMISSIONS_ORG_ADMIN :: int where
  "PERMISSIONS_ORG_ADMIN = 15"

section \<open>Mail and tokens handed to the outside\<close>

record reset_context =
  password_reset_link :: string
  ctx_user :: core_user

record invite_context =
  invitation_link :: string
  org_admin_name :: string
  organization_name :: string

text \<open>
  One constructor per call into \<open>core.email_utils\<close>:
  \<open>send_email_body(email, subject, text_content, html_content)\<close> and
  \<open>send_email(email, subject, context, template_name, html_template_name)\<close> with the
  reset or the invitation context.
\<close>

datatype message =
    SendEmailBody string string string "string option"
  | SendResetEmail string string reset_context string string
  | SendInviteEmail string string invite_context string string

text \<open>
  What a request has done to the outside so far: the tokens it minted and the messages
  it handed to the mailer, both in order.
\<close>

record effects =
  minted :: "string list"
  outbox :: "message list"

section \<open>CoreUser.is_org_admin (workflow/models.py)\<close>

text \<open>
  The Python object is the row plus the attribute \<open>_is_org_admin\<close>, absent (\<open>None\<close>)
  until the first call sets it.
\<close>

record core_user_obj = core_user +
  org_admin_attr :: "bool option"

definition group_names :: "store \<Rightarrow> nat \<Rightarrow> string list" where
  "group_names db pk = map snd (filter (\<lambda>row. fst row = pk) (auth_user_groups db))"

definition is_org_admin :: "store \<Rightarrow> core_user_obj \<Rightarrow> bool \<times> core_user_obj" where
  "is_org_admin db self =
     (case org_admin_attr self of
        None \<Rightarrow>
          (let v = (ROLE_ORGANIZATION_ADMIN \<in> set (group_names db (usr_pk self)))
           in (v, self\<lparr>org_admin_attr := Some v\<rparr>))
      | Some v \<Rightarrow> (v, self))"

text \<open>
  The spec's wording of the check, for comparison: some group of the user carries the
  full mask 15 at organization or global scope within the user's organization.
\<close>

definition spec_org_admin :: "store \<Rightarrow> core_user_obj \<Rightarrow> bool" where
  "spec_org_admin db self =
     list_ex (\<lambda>g. grp_pk g \<in> set (core_groups self) \<and> permissions g = 15
                  \<and> (is_org_level g \<or> is_global g)
                  \<and> grp_organization g = usr_organization self)
             (coregroups db)"

section \<open>Invitation tokens (core/views/coreuser.py, core/serializers.py)\<close>

text \<open>
  \<open>jwt.decode(token, settings.SECRET_KEY, algorithms='HS256')\<close> belongs to PyJWT; the
  functions below take its outcome on the request's token: the claim set, or the
  exception raised. \<open>InvalidSignatureError\<close> is a subclass of \<open>DecodeError\<close>;
  \<open>InvalidTokenError\<close> stands for the other exceptions of the library, which are
  subclasses of neither \<open>DecodeError\<close> nor \<open>ExpiredSignatureError\<close>.
\<close>

type_synonym decode_outcome = "error + jv dict"

definition isinstance_DecodeError :: "error \<Rightarrow> bool" where
  "isinstance_DecodeError e = (e = DecodeError \<or> e = InvalidSignatureError)"

datatype body =
    Detail string
  | Invitations string "string list"
  | InviteInfo jv "(string \<times> string) option"
  | EventInfo jv jv jv jv

datatype response = Response nat body

definition HTTP_200_OK :: nat where
  "HTTP_200_OK = 200"

definition HTTP_401_UNAUTHORIZED :: nat where
  "HTTP_401_UNAUTHORIZED = 401"

text \<open>\<open>CoreUser.objects.filter(email=v).exists()\<close>; no row has a null email.\<close>

definition email_exists :: "store \<Rightarrow> jv \<Rightarrow> bool" where
  "email_exists db v =
     (case v of JNull \<Rightarrow> False | JStr s \<Rightarrow> list_ex (\<lambda>u. email u = s) (coreusers db))"

text \<open>
  \<open>Organization.objects.values('organization_uuid', 'name').get(organization_uuid=v)\<close>.
\<close>

definition organization_values :: "store \<Rightarrow> jv \<Rightarrow> error + (string \<times> string)" where
  "organization_values db v =
     (case qs_get (filter (\<lambda>org. JStr (organization_uuid org) = v) (organizations db)) of
        Inl e \<Rightarrow> Inl e
      | Inr org \<Rightarrow> Inr (organization_uuid org, org_name org))"

text \<open>
  \<open>invite_check\<close>. The first argument is \<open>query_params.get('token')\<close>, the second the
  outcome of decoding it. \<open>Inl\<close> is an exception that leaves the view.
\<close>

definition invite_check :: "store \<Rightarrow> string option \<Rightarrow> decode_outcome \<Rightarrow> error + response" where
  "invite_check db token outcome =
     (case token of
        None \<Rightarrow> Inr (Response HTTP_401_UNAUTHORIZED (Detail ''No token is provided.''))
      | Some t \<Rightarrow>
          (case outcome of
             Inl e \<Rightarrow>
               (if isinstance_DecodeError e
                then Inr (Response HTTP_401_UNAUTHORIZED (Detail ''Token is not valid.''))
                else if e = ExpiredSignatureError
                then Inr (Response HTTP_401_UNAUTHORIZED (Detail ''Token is expired.''))
                else Inl e)
           | Inr decoded \<Rightarrow>
               (case getitem decoded ''email'' of
                  Inl e \<Rightarrow> Inl e
                | Inr em \<Rightarrow>
                    (if email_exists db em
                     then Inr (Response HTTP_401_UNAUTHORIZED (Detail ''Token has been used.''))
                     else (case getitem decoded ''org_uuid'' of
                             Inl e \<Rightarrow> Inl e
                           | Inr ou \<Rightarrow>
                               (if truthy ou
                                then (case organization_values db ou of
                                        Inl e \<Rightarrow> Inl e
                                      | Inr org \<Rightarrow> Inr (Response HTTP_200_OK (InviteInfo em (Some org))))
                                else Inr (Response HTTP_200_OK (InviteInfo em None))))))))"


text \<open>
  \<open>CoreUserSerializer.validate_invitation_token\<close>: \<open>value\<close> is the token, \<open>initial_data\<close>
  the request body. The \<open>or\<close> evaluates \<open>self.initial_data['email']\<close> only when no user
  has the token's email. The two \<open>except\<close> clauses catch what \<open>jwt.decode\<close> raised; a
  \<open>KeyError\<close> and the \<open>ValidationError\<close> of the \<open>try\<close> body pass through them.
\<close>

definition validate_invitation_token ::
  "store \<Rightarrow> jv dict \<Rightarrow> string \<Rightarrow> decode_outcome \<Rightarrow> error + string" where
  "validate_invitation_token db initial_data value outcome =
     (case outcome of
        Inl e \<Rightarrow>
          (if isinstance_DecodeError e then Inl (ValidationError ''Token is not valid.'')
           else if e = ExpiredSignatureError then Inl (ValidationError ''Token is expired.'')
           else Inl e)
      | Inr decoded \<Rightarrow>
          (case getitem decoded ''email'' of
             Inl e \<Rightarrow> Inl e
           | Inr em \<Rightarrow>
               (if email_exists db em then Inl (ValidationError ''Token is not valid.'')
                else (case getitem initial_data ''email'' of
                        Inl e \<Rightarrow> Inl e
                      | Inr given \<Rightarrow>
                          (if em \<noteq> given then Inl (ValidationError ''Token is not valid.'')
                           else Inr value)))))"

section \<open>CoreUserWritableSerializer.create (core/serializers.py)\<close>

text \<open>
  What \<open>create\<close> takes from outside the sources: \<open>uuid4\<close> gives a new organization its
  uuid, \<open>make_password\<close> is the hashing of \<open>set_password\<close>, and \<open>org_post_save\<close> is the set
  of groups that saving a new organization adds to the group table (the model's
  \<open>save\<close> in \<open>core.models\<close>).
\<close>

record create_env =
  uuid4 :: "nat \<Rightarrow> string"
  make_password :: "string \<Rightarrow> string"
  org_post_save :: "organization \<Rightarrow> core_group list"

text \<open>
  The validated data: \<open>organization\<close> is \<open>{'name': ...}\<close> (the field
  \<open>organization_name\<close> has source \<open>organization.name\<close>); \<open>core_groups\<close> and \<open>is_active\<close>
  are optional.
\<close>

record validated_data =
  vd_organization :: string
  vd_core_groups :: "core_group list option"
  vd_is_active :: "bool option"
  vd_username :: string
  vd_first_name :: string
  vd_email :: string
  vd_password :: string

text \<open>\<open>Organization.objects.get_or_create(name=...)\<close>.\<close>

definition new_organization :: "create_env \<Rightarrow> string \<Rightarrow> store \<Rightarrow> organization" where
  "new_organization env nm db =
     (let pk = next_pk (map org_pk (organizations db))
      in \<lparr>org_pk = pk, organization_uuid = uuid4 env pk, org_name = nm\<rparr>)"

definition get_or_create ::
  "create_env \<Rightarrow> string \<Rightarrow> store \<Rightarrow> (error + organization \<times> bool) \<times> store" where
  "get_or_create env nm db =
     (case filter (\<lambda>org. org_name org = nm) (organizations db) of
        [] \<Rightarrow>
          (let org = new_organization env nm db
           in (Inr (org, True),
               db\<lparr>organizations := organizations db @ [org],
                  coregroups := coregroups db @ org_post_save env org\<rparr>))
      | [org] \<Rightarrow> (Inr (org, False), db)
      | _ \<Rightarrow> (Inl MultipleObjectsReturned, db))"

text \<open>
  \<open>CoreGroup.objects.get(organization=organization, is_org_level=True,
  permissions=PERMISSIONS_ORG_ADMIN)\<close>.
\<close>

definition get_group_org_admin :: "store \<Rightarrow> organization \<Rightarrow> error + core_group" where
  "get_group_org_admin db org =
     qs_get (filter (\<lambda>g. grp_organization g = Some (org_pk org) \<and> is_org_level g
                          \<and> permissions g = PERMISSIONS_ORG_ADMIN)
                    (coregroups db))"

text \<open>\<open>coreuser.core_groups.add(group)\<close>: a group already related is not added again.\<close>

definition add_group :: "core_user \<Rightarrow> core_group \<Rightarrow> core_user" where
  "add_group u g =
     (if grp_pk g \<in> set (core_groups u) then u
      else u\<lparr>core_groups := core_groups u @ [grp_pk g]\<rparr>)"

text \<open>The row of \<open>coreuser\<close> in the table is replaced by its current state.\<close>

definition save_user :: "store \<Rightarrow> core_user \<Rightarrow> store" where
  "save_user db u =
     db\<lparr>coreusers := map (\<lambda>r. if usr_pk r = usr_pk u then u else r) (coreusers db)\<rparr>"

text \<open>
  \<open>create\<close>. The result is the returned user or the exception, with the table as the
  call leaves it: nothing is rolled back when the insert of the user or the lookup of
  the admin group raises. \<open>CoreUser.objects.create\<close> raises \<open>IntegrityError\<close> when the
  username is taken.
\<close>

definition create ::
  "create_env \<Rightarrow> validated_data \<Rightarrow> store \<Rightarrow> (error + core_user) \<times> store" where
  "create env validated_data db =
     (case get_or_create env (vd_organization validated_data) db of
        (Inl e, db1) \<Rightarrow> (Inl e, db1)
      | (Inr (organization, is_new_org), db1) \<Rightarrow>
          (let requested = (case vd_core_groups validated_data of None \<Rightarrow> [] | Some gs \<Rightarrow> gs);
               validated_data = validated_data\<lparr>vd_is_active := Some True\<rparr>;
               coreuser =
                 \<lparr>usr_pk = next_pk (map usr_pk (coreusers db1)),
                  username = vd_username validated_data,
                  first_name = vd_first_name validated_data,
                  email = vd_email validated_data,
                  password = make_password env (vd_password validated_data),
                  is_active = (case vd_is_active validated_data of None \<Rightarrow> True | Some b \<Rightarrow> b),
                  usr_organization = Some (org_pk organization),
                  core_groups = []\<rparr>;
               db2 = db1\<lparr>coreusers := coreusers db1 @ [coreuser]\<rparr>
           in if vd_username validated_data \<in> set (map username (coreusers db1))
              then (Inl IntegrityError, db1)
              else if is_new_org
              then (case get_group_org_admin db2 organization of
                      Inl e \<Rightarrow> (Inl e, db2)
                    | Inr group_org_admin \<Rightarrow>
                        (let coreuser = fold (\<lambda>g u. add_group u g) requested
                                          (add_group coreuser group_org_admin)
                         in (Inr coreuser, save_user db2 coreuser)))
              else (let coreuser = fold (\<lambda>g u. add_group u g) requested coreuser
                    in (Inr coreuser, save_user db2 coreuser))))"

section \<open>CoreUserResetPasswordSerializer.save (core/serializers.py)\<close>

text \<open>
  From outside the sources: \<open>resetpass_url\<close> is
  \<open>urljoin(settings.FRONTEND_URL, settings.RESETPASS_CONFIRM_URL_PATH)\<close>, \<open>uidb64\<close> is
  \<open>urlsafe_base64_encode(force_bytes(pk))\<close>, \<open>make_token\<close> is
  \<open>default_token_generator.make_token\<close>, \<open>render\<close> is
  \<open>Template(source).render(Context(context))\<close>, and \<open>mailer\<close> is what a call of
  \<open>send_email_body\<close> or \<open>send_email\<close> returns (the number of messages delivered) or raises.
\<close>

record reset_env =
  resetpass_url :: string
  DEFAULT_ORG :: string
  uidb64 :: "nat \<Rightarrow> string"
  make_token :: "core_user \<Rightarrow> string"
  render :: "string \<Rightarrow> reset_context \<Rightarrow> string"
  mailer :: "message \<Rightarrow> error + nat"

text \<open>
  The template of the user's organization, else the first one of an organization named
  \<open>DEFAULT_ORG\<close>.
\<close>

definition reset_template :: "reset_env \<Rightarrow> store \<Rightarrow> core_user \<Rightarrow> email_template option" where
  "reset_template env db user =
     (case qs_first (filter (\<lambda>t. Some (tpl_organization t) = usr_organization user
                                 \<and> tpl_type t = TEMPLATE_RESET_PASSWORD)
                           (emailtemplates db)) of
        Some tpl \<Rightarrow> Some tpl
      | None \<Rightarrow>
          qs_first (filter (\<lambda>t. list_ex (\<lambda>org. org_pk org = tpl_organization t
                                               \<and> org_name org = DEFAULT_ORG env)
                                         (organizations db)
                                 \<and> tpl_type t = TEMPLATE_RESET_PASSWORD)
                           (emailtemplates db)))"

definition str_truthy :: "string option \<Rightarrow> bool" where
  "str_truthy s = (case s of None \<Rightarrow> False | Some x \<Rightarrow> x \<noteq> [])"

text \<open>
  The context of one pass of the loop: the link is \<open>resetpass_url.format(uid=uid,
  token=token)\<close>, with the uid and the token of \<open>user\<close>.
\<close>

definition reset_link_context :: "reset_env \<Rightarrow> core_user \<Rightarrow> reset_context" where
  "reset_link_context env user =
     (let uid = uidb64 env (usr_pk user);
          token = make_token env user
      in \<lparr>password_reset_link = resetpass_url env @ uid @ ''/'' @ token @ ''/'',
          ctx_user = user\<rparr>)"

text \<open>The message one pass of the loop hands to the mailer for \<open>user\<close>.\<close>

definition reset_message :: "reset_env \<Rightarrow> store \<Rightarrow> string \<Rightarrow> core_user \<Rightarrow> message" where
  "reset_message env db em user =
     (let context = reset_link_context env user
      in case reset_template env db user of
           None \<Rightarrow>
             SendResetEmail em ''Reset your password'' context
               ''email/coreuser/password_reset.txt'' ''email/coreuser/password_reset.html''
         | Some tpl \<Rightarrow>
             (if str_truthy (tpl_template tpl)
              then SendEmailBody em (tpl_subject tpl)
                     (render env (the (tpl_template tpl)) context)
                     (if str_truthy (tpl_template_html tpl)
                      then Some (render env (the (tpl_template_html tpl)) context)
                      else None)
              else SendResetEmail em ''Reset your password'' context
                     ''email/coreuser/password_reset.txt'' ''email/coreuser/password_reset.html''))"

text \<open>The loop over the matching users, with the running count and the effects so far.\<close>

fun reset_loop ::
  "reset_env \<Rightarrow> store \<Rightarrow> string \<Rightarrow> core_user list \<Rightarrow> nat \<Rightarrow> effects \<Rightarrow> (error + nat) \<times> effects" where
  "reset_loop env db em [] count fx = (Inr count, fx)"
| "reset_loop env db em (user # users) count fx =
     (let msg = reset_message env db em user;
          fx1 = fx\<lparr>minted := minted fx @ [make_token env user], outbox := outbox fx @ [msg]\<rparr>
      in case mailer env msg of
           Inl e \<Rightarrow> (Inl e, fx1)
         | Inr n \<Rightarrow> reset_loop env db em users (count + n) fx1)"

text \<open>
  \<open>CoreUser.objects.filter(email=email, is_active=True)\<close>, in the order of
  \<open>Meta.ordering = ('first_name',)\<close>; rows with the same first name stay in table order.
\<close>

definition active_users :: "store \<Rightarrow> string \<Rightarrow> core_user list" where
  "active_users db em =
     sort_key first_name (filter (\<lambda>u. email u = em \<and> is_active u = True) (coreusers db))"

definition save :: "reset_env \<Rightarrow> store \<Rightarrow> string \<Rightarrow> effects \<Rightarrow> (error + nat) \<times> effects" where
  "save env db em fx = reset_loop env db em (active_users db em) 0 fx"

section \<open>CoreUserViewSet.invite (core/views/coreuser.py)\<close>

text \<open>
  From outside the sources: \<open>valid_email\<close> is the validation of the \<open>EmailField\<close> child,
  \<open>reg_location\<close> is \<open>urljoin(settings.FRONTEND_URL, settings.REGISTRATION_URL_PATH)\<close>,
  \<open>create_invitation_token\<close> is the function of \<open>core.jwt_utils\<close>,
  \<open>build_absolute_uri\<close> the request's, \<open>admin_name\<close> the value
  \<open>user.name if hasattr(user, 'coreuser') else ''\<close>, and \<open>invite_mailer\<close> what \<open>send_email\<close>
  returns or raises.
\<close>

record invite_env =
  valid_email :: "string \<Rightarrow> bool"
  reg_location :: string
  create_invitation_token :: "string \<Rightarrow> organization option \<Rightarrow> string"
  build_absolute_uri :: "string \<Rightarrow> string"
  admin_name :: string
  invite_mailer :: "message \<Rightarrow> error + nat"

text \<open>
  \<open>CoreUserInvitationSerializer\<close>: \<open>emails\<close> is required, a list of valid addresses,
  \<open>min_length=1, max_length=10\<close>.
\<close>

definition is_valid :: "invite_env \<Rightarrow> string list option \<Rightarrow> error + string list" where
  "is_valid env data =
     (case data of
        None \<Rightarrow> Inl (ValidationError ''This field is required.'')
      | Some emails \<Rightarrow>
          (if \<not> list_all (valid_email env) emails
           then Inl (ValidationError ''Enter a valid email address.'')
           else if length emails < 1
           then Inl (ValidationError ''Ensure this field has at least 1 elements.'')
           else if length emails > 10
           then Inl (ValidationError ''Ensure this field has no more than 10 elements.'')
           else Inr emails))"

fun invite_loop ::
  "invite_env \<Rightarrow> string list \<Rightarrow> organization option \<Rightarrow> string list \<Rightarrow> string list \<Rightarrow> effects
     \<Rightarrow> (error + string list) \<times> effects" where
  "invite_loop env registered_emails organization [] links fx = (Inr links, fx)"
| "invite_loop env registered_emails organization (email_address # rest) links fx =
     (if email_address \<notin> set registered_emails
      then (let token = create_invitation_token env email_address organization;
                link = build_absolute_uri env (reg_location env @ ''?token='' @ token);
                context = \<lparr>invitation_link = link,
                           org_admin_name = admin_name env,
                           organization_name =
                             (case organization of None \<Rightarrow> [] | Some org \<Rightarrow> org_name org)\<rparr>;
                msg = SendInviteEmail email_address ''Application Access'' context
                        ''email/coreuser/invitation.txt'' ''email/coreuser/invitation.html'';
                fx1 = fx\<lparr>minted := minted fx @ [token], outbox := outbox fx @ [msg]\<rparr>
            in case invite_mailer env msg of
                 Inl e \<Rightarrow> (Inl e, fx1)
               | Inr n \<Rightarrow> invite_loop env registered_emails organization rest (links @ [link]) fx1)
      else invite_loop env registered_emails organization rest links fx)"

definition perform_invite ::
  "invite_env \<Rightarrow> store \<Rightarrow> organization option \<Rightarrow> string list \<Rightarrow> effects
     \<Rightarrow> (error + string list) \<times> effects" where
  "perform_invite env db organization email_addresses fx =
     (let registered_emails =
            map email (filter (\<lambda>u. email u \<in> set email_addresses) (coreusers db))
      in invite_loop env registered_emails organization email_addresses [] fx)"

definition invite ::
  "invite_env \<Rightarrow> store \<Rightarrow> organization option \<Rightarrow> string list option \<Rightarrow> effects
     \<Rightarrow> (error + response) \<times> effects" where
  "invite env db organization data fx =
     (case is_valid env data of
        Inl e \<Rightarrow> (Inl e, fx)
      | Inr emails \<Rightarrow>
          (case perform_invite env db organization emails fx of
             (Inl e, fx1) \<Rightarrow> (Inl e, fx1)
           | (Inr links, fx1) \<Rightarrow>
               (Inr (Response HTTP_200_OK
                       (Invitations ''The invitations were sent successfully.'' links)), fx1)))"

section \<open>Example data\<close>

text \<open>A dict with the four keys in another order, and one with a key missing.\<close>

definition perms_reordered :: "jv dict" where
  "perms_reordered =
     [(''delete'', JBool True), (''update'', JBool False), (''read'', JStr ''no''),
      (''create'', JInt 1)]"

definition perms_missing_key :: "jv dict" where
  "perms_missing_key = [(''create'', JBool True), (''read'', JBool False), (''update'', JBool False)]"

text \<open>A dict with exactly the four keys, one of whose values is not a boolean.\<close>

definition perms_bad_value :: "jv dict" where
  "perms_bad_value =
     [(''create'', JInt 2), (''read'', JBool False), (''update'', JBool False),
      (''delete'', JBool True)]"

text \<open>
  A user in the auth group named OrgAdmin with no core group at all, and a user whose
  only group is the org-level group of the own organization with mask 15.
\<close>

definition obj_role_only :: core_user_obj where
  "obj_role_only =
     \<lparr>usr_pk = 1, username = ''ann'', first_name = ''Ann'', email = ''ann@example.com'',
      password = ''x'',
      is_active = True, usr_organization = Some 1, core_groups = [], org_admin_attr = None\<rparr>"

definition db_role_only :: store where
  "db_role_only =
     \<lparr>organizations = [\<lparr>org_pk = 1, organization_uuid = ''u-1'', org_name = ''Acme''\<rparr>],
      coregroups = [],
      coreusers = [core_user.truncate obj_role_only],
      emailtemplates = [],
      auth_user_groups = [(1, ''OrgAdmin'')]\<rparr>"

definition acme_admins :: core_group where
  "acme_admins =
     \<lparr>grp_pk = 7, grp_name = ''Admins'', grp_organization = Some 1, is_global = False,
      is_org_level = True, permissions = 15\<rparr>"

definition obj_mask_only :: core_user_obj where
  "obj_mask_only =
     \<lparr>usr_pk = 2, username = ''bob'', first_name = ''Bob'', email = ''bob@example.com'',
      password = ''x'',
      is_active = True, usr_organization = Some 1, core_groups = [7], org_admin_attr = None\<rparr>"

definition db_mask_only :: store where
  "db_mask_only =
     \<lparr>organizations = [\<lparr>org_pk = 1, organization_uuid = ''u-1'', org_name = ''Acme''\<rparr>],
      coregroups = [acme_admins],
      coreusers = [core_user.truncate obj_mask_only],
      emailtemplates = [],
      auth_user_groups = []\<rparr>"

text \<open>
  The claim sets of an invitation token and of an event invitation token, both for
  \<open>ann@example.com\<close>, and a request body with that address.
\<close>

definition claims_invitation :: "jv dict" where
  "claims_invitation = [(''email'', JStr ''ann@example.com''), (''org_uuid'', JStr ''u-1'')]"


definition initial_ann :: "jv dict" where
  "initial_ann = [(''email'', JStr ''ann@example.com''), (''username'', JStr ''ann'')]"

definition db_no_users :: store where
  "db_no_users =
     \<lparr>organizations = [\<lparr>org_pk = 1, organization_uuid = ''u-1'', org_name = ''Acme''\<rparr>],
      coregroups = [], coreusers = [], emailtemplates = [], auth_user_groups = []\<rparr>"

text \<open>An environment for \<open>invite\<close> whose mailer delivers every message.\<close>

definition demo_invite_env :: invite_env where
  "demo_invite_env =
     \<lparr>valid_email = (\<lambda>s. CHR ''@'' \<in> set s),
      reg_location = ''https://app.example.com/register/'',
      create_invitation_token = (\<lambda>e org. ''token-for-'' @ e),
      build_absolute_uri = (\<lambda>u. u),
      admin_name = ''Ann'',
      invite_mailer = (\<lambda>m. Inr 1)\<rparr>"

definition eleven_emails :: "string list" where
  "eleven_emails = replicate 11 ''guest@example.com''"

definition no_effects :: effects where
  "no_effects = \<lparr>minted = [], outbox = []\<rparr>"

text \<open>
  Two active users and an inactive one share \<open>dup@example.com\<close>: Zoe, of the
  organization Acme, which has a reset template, then Yan, inactive, then Amy, of no
  organization. The mailer of \<open>demo_reset_env\<close> delivers every message.
\<close>

definition zoe :: core_user where
  "zoe =
     \<lparr>usr_pk = 1, username = ''zoe'', first_name = ''Zoe'', email = ''dup@example.com'',
      password = ''x'', is_active = True, usr_organization = Some 1, core_groups = []\<rparr>"

definition yan :: core_user where
  "yan =
     \<lparr>usr_pk = 2, username = ''yan'', first_name = ''Yan'', email = ''dup@example.com'',
      password = ''x'', is_active = False, usr_organization = None, core_groups = []\<rparr>"

definition amy :: core_user where
  "amy =
     \<lparr>usr_pk = 3, username = ''amy'', first_name = ''Amy'', email = ''dup@example.com'',
      password = ''x'', is_active = True, usr_organization = None, core_groups = []\<rparr>"

definition acme_reset_template :: email_template where
  "acme_reset_template =
     \<lparr>tpl_organization = 1, tpl_type = 1, tpl_subject = ''Acme password'',
      tpl_template = Some ''Reset here: '', tpl_template_html = None\<rparr>"

definition db_duplicates :: store where
  "db_duplicates =
     \<lparr>organizations = [\<lparr>org_pk = 1, organization_uuid = ''u-1'', org_name = ''Acme''\<rparr>],
      coregroups = [],
      coreusers = [zoe, yan, amy],
      emailtemplates = [acme_reset_template], auth_user_groups = []\<rparr>"

definition demo_reset_env :: reset_env where
  "demo_reset_env =
     \<lparr>resetpass_url = ''https://app.example.com/reset/'',
      DEFAULT_ORG = ''Default'',
      uidb64 = (\<lambda>pk. replicate pk (CHR ''u'')),
      make_token = (\<lambda>u. replicate (usr_pk u) (CHR ''t'')),
      render = (\<lambda>src ctx. src @ password_reset_link ctx),
      mailer = (\<lambda>m. Inr 1)\<rparr>"

text \<open>
  An environment for \<open>create\<close> in which saving a new organization adds its org-level
  admin group; a store with the organization Acme and its admin group; a signup that
  names Acme and asks for that group; and a signup that names an organization not yet
  there. Both signups send \<open>is_active = False\<close>.
\<close>

definition demo_create_env :: create_env where
  "demo_create_env =
     \<lparr>uuid4 = (\<lambda>pk. replicate pk (CHR ''o'')),
      make_password = (\<lambda>p. ''hashed-'' @ p),
      org_post_save =
        (\<lambda>org. [\<lparr>grp_pk = 100 + org_pk org, grp_name = ''Admins'',
                  grp_organization = Some (org_pk org), is_global = False,
                  is_org_level = True, permissions = 15\<rparr>])\<rparr>"

definition acme :: organization where
  "acme = \<lparr>org_pk = 1, organization_uuid = ''u-1'', org_name = ''Acme''\<rparr>"

definition db_acme :: store where
  "db_acme =
     \<lparr>organizations = [acme], coregroups = [acme_admins], coreusers = [],
      emailtemplates = [], auth_user_groups = []\<rparr>"

definition vd_join_acme :: validated_data where
  "vd_join_acme =
     \<lparr>vd_organization = ''Acme'', vd_core_groups = Some [acme_admins],
      vd_is_active = Some False, vd_username = ''eve'', vd_first_name = ''Eve'',
      vd_email = ''eve@example.com'',
      vd_password = ''pw''\<rparr>"


text \<open>The user that the signup into Acme returns.\<close>

definition eve :: core_user where
  "eve =
     \<lparr>usr_pk = 1, username = ''eve'', first_name = ''Eve'', email = ''eve@example.com'',
      password = ''hashed-pw'', is_active = True, usr_organization = Some 1,
      core_groups = [7]\<rparr>"


section \<open>The permission code\<close>

lemma decode_then_encode_upto_15:
  "list_all (\<lambda>v. case to_representation v of
                    Inl e \<Rightarrow> False
                  | Inr m \<Rightarrow> to_internal_value (map (map_prod id JBool) m) = Inr v)
     [0..15]"
  by code_simp

lemma to_internal_value_quadruple:
  "to_internal_value
     [(''create'', JBool c), (''read'', JBool r), (''update'', JBool u), (''delete'', JBool d)]
     = Inr ((if c then 8 else 0) + (if r then 4 else 0) + (if u then 2 else 0) + (if d then 1 else 0))"
  by (simp add: to_internal_value_def DictField_to_internal_value_def BooleanField_def
      perm_keys_def getitem_def str_int_bool_def int_base2_def)

lemma to_representation_quadruple:
  "to_representation
     ((if c then 8 else 0) + (if r then 4 else 0) + (if u then 2 else 0) + (if d then 1 else 0))
    = Inr [(''create'', c), (''read'', r), (''update'', u), (''delete'', d)]"
  by (cases c; cases r; cases u; cases d; simp; code_simp)

lemma to_representation_15:
  "to_representation 15
     = Inr [(''create'', True), (''read'', True), (''update'', True), (''delete'', True)]"
  by code_simp

lemma to_representation_negative: "v < 0 \<Longrightarrow> to_representation v = Inl ValueError"
  by (simp add: to_representation_def format_04b_def perm_keys_def int_of_char_def)

lemma getitem_present:
  "k \<in> set (map fst d) \<Longrightarrow> \<exists>b. getitem d k = Inr b"
  unfolding getitem_def
  by (cases "map_of d k") (auto simp: map_of_eq_None_iff)

lemma int_base2_four_bits:
  "\<exists>n. int_base2 (str_int_bool a @ str_int_bool b @ str_int_bool c @ str_int_bool d) = Inr n
        \<and> 0 \<le> n \<and> n \<le> 15"
  by (cases a; cases b; cases c; cases d; simp add: str_int_bool_def int_base2_def)

lemma encode_exact_keys:
  assumes "set (map fst d) = set perm_keys"
  shows "\<exists>n. (case join_bits d perm_keys of Inl e \<Rightarrow> Inl e | Inr s \<Rightarrow> int_base2 s) = Inr n
              \<and> 0 \<le> n \<and> n \<le> 15"
proof -
  from assms have mem: "''create'' \<in> set (map fst d)" "''read'' \<in> set (map fst d)"
    "''update'' \<in> set (map fst d)" "''delete'' \<in> set (map fst d)"
    by (simp_all add: perm_keys_def)
  from mem(1) obtain c where c: "getitem d ''create'' = Inr c" using getitem_present by blast
  from mem(2) obtain r where r: "getitem d ''read'' = Inr r" using getitem_present by blast
  from mem(3) obtain u where u: "getitem d ''update'' = Inr u" using getitem_present by blast
  from mem(4) obtain x where x: "getitem d ''delete'' = Inr x" using getitem_present by blast
  have j: "join_bits d perm_keys
             = Inr (str_int_bool c @ str_int_bool r @ str_int_bool u @ str_int_bool x)"
    by (simp add: perm_keys_def c r u x)
  show ?thesis
    using int_base2_four_bits [of c r u x] by (simp add: j)
qed

lemma run_child_validation_errors:
  "(snd (run_child_validation data) = []) = (\<forall>v \<in> snd ` set data. BooleanField v \<noteq> None)"
  by (induction data rule: run_child_validation.induct) (auto split: prod.splits option.splits)

lemma run_child_validation_keys:
  "snd (run_child_validation data) = [] \<Longrightarrow>
     map fst (fst (run_child_validation data)) = map fst data"
  by (induction data rule: run_child_validation.induct) (auto split: prod.splits option.splits)

lemma DictField_valid:
  "\<forall>v \<in> snd ` set data. BooleanField v \<noteq> None \<Longrightarrow>
     \<exists>d. DictField_to_internal_value data = Inr d \<and> map fst d = map fst data"
  using run_child_validation_errors [of data] run_child_validation_keys [of data]
  by (auto simp: DictField_to_internal_value_def split: prod.splits)

lemma DictField_invalid:
  "\<exists>v \<in> snd ` set data. BooleanField v = None \<Longrightarrow>
     \<exists>ks. DictField_to_internal_value data = Inl (ValidationErrorDict ks)"
  using run_child_validation_errors [of data]
  by (auto simp: DictField_to_internal_value_def split: prod.splits)

text \<open>
  C1. Encode and decode are mutually inverse: for each of the 16 quadruples of booleans,
  decoding the integer that encoding produces gives the quadruple back, and for every
  integer from 0 to 15, encoding the dict that decoding produces gives the integer back.
\<close>

theorem permissions_roundtrip:
  "(\<forall>c r u d. \<exists>v. to_internal_value
                     [(''create'', JBool c), (''read'', JBool r), (''update'', JBool u),
                      (''delete'', JBool d)] = Inr v
                  \<and> to_representation v = Inr [(''create'', c), (''read'', r), (''update'', u), (''delete'', d)])
   \<and> (\<forall>v \<in> {0..15}. \<exists>m. to_representation v = Inr m
                          \<and> to_internal_value (map (map_prod id JBool) m) = Inr v)"
proof (intro conjI allI ballI)
  fix c r u d
  show "\<exists>v. to_internal_value
               [(''create'', JBool c), (''read'', JBool r), (''update'', JBool u),
                (''delete'', JBool d)] = Inr v
            \<and> to_representation v = Inr [(''create'', c), (''read'', r), (''update'', u), (''delete'', d)]"
    using to_internal_value_quadruple [of c r u d] to_representation_quadruple [of c r u d]
    by blast
next
  fix v :: int
  assume "v \<in> {0..15}"
  then have "v \<in> set [0..15]" by simp
  with decode_then_encode_upto_15
  have "case to_representation v of
          Inl e \<Rightarrow> False
        | Inr m \<Rightarrow> to_internal_value (map (map_prod id JBool) m) = Inr v"
    unfolding list_all_iff by blast
  then show "\<exists>m. to_representation v = Inr m
                 \<and> to_internal_value (map (map_prod id JBool) m) = Inr v"
    by (cases "to_representation v") auto
qed

theorem permissions_roundtrip_witness:
  "(9::int) \<in> {0..15}
   \<and> (\<exists>m. to_representation 9 = Inr m \<and> to_internal_value (map (map_prod id JBool) m) = Inr 9)
   \<and> (\<exists>v. to_internal_value
             [(''create'', JBool True), (''read'', JBool False), (''update'', JBool False),
              (''delete'', JBool True)] = Inr v
          \<and> to_representation v = Inr [(''create'', True), (''read'', False), (''update'', False), (''delete'', True)])"
proof -
  have h: "(9::int) \<in> {0..15}" by simp
  from permissions_roundtrip have
    a: "\<forall>v \<in> {0..15}. \<exists>m. to_representation v = Inr m
                          \<and> to_internal_value (map (map_prod id JBool) m) = Inr v"
    and b: "\<forall>c r u d. \<exists>v. to_internal_value
                     [(''create'', JBool c), (''read'', JBool r), (''update'', JBool u),
                      (''delete'', JBool d)] = Inr v
                  \<and> to_representation v = Inr [(''create'', c), (''read'', r), (''update'', u), (''delete'', d)]"
    by blast+
  from a h have "\<exists>m. to_representation 9 = Inr m
                     \<and> to_internal_value (map (map_prod id JBool) m) = Inr 9" by (rule bspec)
  moreover from b have "\<exists>v. to_internal_value
             [(''create'', JBool True), (''read'', JBool False), (''update'', JBool False),
              (''delete'', JBool True)] = Inr v
          \<and> to_representation v = Inr [(''create'', True), (''read'', False), (''update'', False), (''delete'', True)]"
    by blast
  ultimately show ?thesis using h by blast
qed

text \<open>
  C7, as stated, fails below the range: \<open>-1\<close> is outside 0..15, it is below 16 and so is
  not replaced by 15, its formatted string starts with the sign, and converting the sign
  to an integer raises \<open>ValueError\<close>, while 15 decodes to the dict with every flag set.
\<close>

theorem decode_negative_counterexample:
  "(-1::int) \<notin> {0..15}
   \<and> to_representation (-1) = Inl ValueError
   \<and> to_representation 15
       = Inr [(''create'', True), (''read'', True), (''update'', True), (''delete'', True)]
   \<and> to_representation (-1) \<noteq> to_representation 15"
proof -
  have neg: "to_representation (-1) = Inl ValueError"
    by (rule to_representation_negative) simp
  show ?thesis unfolding neg to_representation_15 by simp
qed

text \<open>
  C7, amended: for every integer above 15, decoding gives what decoding 15 gives, the
  dict with every flag set, and \<open>display_permissions\<close> shows what it shows for 15.
\<close>

theorem decode_clamps_above_15:
  "15 < v \<Longrightarrow>
     to_representation v = to_representation 15
     \<and> to_representation v
         = Inr [(''create'', True), (''read'', True), (''update'', True), (''delete'', True)]
     \<and> display_permissions v = display_permissions 15"
  using to_representation_15 by (simp add: to_representation_def display_permissions_def)

theorem decode_clamps_above_15_witness:
  "(15::int) < 4096
   \<and> to_representation 4096 = to_representation 15
   \<and> to_representation 4096
       = Inr [(''create'', True), (''read'', True), (''update'', True), (''delete'', True)]
   \<and> display_permissions 4096 = display_permissions 15"
proof -
  have h: "(15::int) < 4096" by simp
  from decode_clamps_above_15 [OF h] h show ?thesis by blast
qed

text \<open>
  C8, as stated, fails in its second half: a dict with exactly the four keys whose value
  for create is the number 2 does not encode; the boolean child of the field refuses
  the value and the field raises \<open>ValidationError\<close>.
\<close>

theorem encode_bad_value_counterexample:
  "set (map fst perms_bad_value) = set perm_keys
   \<and> to_internal_value perms_bad_value = Inl (ValidationErrorDict [''create''])"
  by (simp add: perms_bad_value_def perm_keys_def to_internal_value_def
      DictField_to_internal_value_def BooleanField_def)

text \<open>
  C8, amended: encoding raises \<open>ValidationError\<close> for every dict whose key set is not
  exactly create, read, update, delete, and for every dict with a value that is not a
  valid boolean; it returns an integer from 0 to 15 for every dict with exactly that
  key set whose values are all valid booleans.
\<close>

theorem encode_checks_key_set:
  "(set (map fst data) \<noteq> set perm_keys \<longrightarrow>
      (\<exists>e. to_internal_value data = Inl e \<and> is_ValidationError e))
   \<and> ((\<exists>v \<in> snd ` set data. BooleanField v = None) \<longrightarrow>
        (\<exists>e. to_internal_value data = Inl e \<and> is_ValidationError e))
   \<and> (set (map fst data) = set perm_keys \<and> (\<forall>v \<in> snd ` set data. BooleanField v \<noteq> None) \<longrightarrow>
        (\<exists>n. to_internal_value data = Inr n \<and> 0 \<le> n \<and> n \<le> 15))"
proof -
  have bad: "\<exists>e. to_internal_value data = Inl e \<and> is_ValidationError e"
    if "\<exists>v \<in> snd ` set data. BooleanField v = None"
  proof -
    from DictField_invalid [OF that] obtain ks
      where "DictField_to_internal_value data = Inl (ValidationErrorDict ks)" by blast
    then show ?thesis by (simp add: to_internal_value_def is_ValidationError_def)
  qed
  have keys: "\<exists>e. to_internal_value data = Inl e \<and> is_ValidationError e"
    if k: "set (map fst data) \<noteq> set perm_keys"
  proof (cases "\<exists>v \<in> snd ` set data. BooleanField v = None")
    case True
    then show ?thesis by (rule bad)
  next
    case False
    then have "\<forall>v \<in> snd ` set data. BooleanField v \<noteq> None" by auto
    from DictField_valid [OF this] obtain d
      where d: "DictField_to_internal_value data = Inr d" "map fst d = map fst data" by blast
    with k show ?thesis by (simp add: to_internal_value_def is_ValidationError_def)
  qed
  have ok: "\<exists>n. to_internal_value data = Inr n \<and> 0 \<le> n \<and> n \<le> 15"
    if k: "set (map fst data) = set perm_keys"
      and v: "\<forall>v \<in> snd ` set data. BooleanField v \<noteq> None"
  proof -
    from DictField_valid [OF v] obtain d
      where d: "DictField_to_internal_value data = Inr d" "map fst d = map fst data" by blast
    from k d(2) have "set (map fst d) = set perm_keys" by simp
    from encode_exact_keys [OF this] this d(1) show ?thesis
      by (simp add: to_internal_value_def)
  qed
  from bad keys ok show ?thesis by blast
qed

theorem encode_checks_key_set_witness:
  "set (map fst perms_missing_key) \<noteq> set perm_keys
   \<and> (\<exists>e. to_internal_value perms_missing_key = Inl e \<and> is_ValidationError e)
   \<and> BooleanField (JInt 2) = None
   \<and> (\<exists>e. to_internal_value perms_bad_value = Inl e \<and> is_ValidationError e)
   \<and> set (map fst perms_reordered) = set perm_keys
   \<and> BooleanField (JBool True) = Some True \<and> BooleanField (JBool False) = Some False
   \<and> BooleanField (JStr ''no'') = Some False \<and> BooleanField (JInt 1) = Some True
   \<and> (\<exists>n. to_internal_value perms_reordered = Inr n \<and> 0 \<le> n \<and> n \<le> 15)"
proof -
  have "''delete'' \<in> set perm_keys" by (simp add: perm_keys_def)
  moreover have "''delete'' \<notin> set (map fst perms_missing_key)"
    by (simp add: perms_missing_key_def)
  ultimately have a: "set (map fst perms_missing_key) \<noteq> set perm_keys" by blast
  have b: "set (map fst perms_reordered) = set perm_keys"
    by (simp add: perms_reordered_def perm_keys_def insert_commute)
  have v: "BooleanField (JInt 2) = None" "BooleanField (JBool True) = Some True"
    "BooleanField (JBool False) = Some False" "BooleanField (JStr ''no'') = Some False"
    "BooleanField (JInt 1) = Some True"
    by (simp_all add: BooleanField_def TRUE_VALUES_def FALSE_VALUES_def)
  from v(1) have c: "\<exists>v \<in> snd ` set perms_bad_value. BooleanField v = None"
    by (simp add: perms_bad_value_def)
  from v have d: "\<forall>v \<in> snd ` set perms_reordered. BooleanField v \<noteq> None"
    by (auto simp: perms_reordered_def)
  from a b c d v encode_checks_key_set [of perms_missing_key]
    encode_checks_key_set [of perms_bad_value] encode_checks_key_set [of perms_reordered]
  show ?thesis by blast
qed

section \<open>The organization-admin check\<close>

text \<open>
  C5, as stated, fails in both directions: a user in the auth group named OrgAdmin and in
  no core group at all passes the check, and a user whose core group is the org-level
  group of the own organization with mask 15, but who is in no group named OrgAdmin, does not.
\<close>

theorem org_admin_counterexample:
  "fst (is_org_admin db_role_only obj_role_only) = True
   \<and> spec_org_admin db_role_only obj_role_only = False
   \<and> fst (is_org_admin db_mask_only obj_mask_only) = False
   \<and> spec_org_admin db_mask_only obj_mask_only = True"
  by (simp add: is_org_admin_def spec_org_admin_def db_role_only_def obj_role_only_def
      db_mask_only_def obj_mask_only_def acme_admins_def group_names_def ROLE_ORGANIZATION_ADMIN_def)

text \<open>
  C5, amended: on a user object that has not been asked before, the check returns true
  exactly when one of the user's groups is named OrgAdmin; it stores the result on the
  object, and every later call, whatever the tables hold by then, returns the stored
  result and leaves the object as it is.
\<close>

theorem is_org_admin_cached:
  "org_admin_attr self = None \<Longrightarrow>
     fst (is_org_admin db self) = (ROLE_ORGANIZATION_ADMIN \<in> set (group_names db (usr_pk self)))
     \<and> org_admin_attr (snd (is_org_admin db self)) = Some (fst (is_org_admin db self))
     \<and> is_org_admin db' (snd (is_org_admin db self))
         = (fst (is_org_admin db self), snd (is_org_admin db self))"
  by (simp add: is_org_admin_def Let_def)

theorem is_org_admin_cached_witness:
  "org_admin_attr obj_role_only = None
   \<and> fst (is_org_admin db_role_only obj_role_only) = True
   \<and> org_admin_attr (snd (is_org_admin db_role_only obj_role_only)) = Some True
   \<and> is_org_admin db_no_users (snd (is_org_admin db_role_only obj_role_only))
       = (True, snd (is_org_admin db_role_only obj_role_only))"
proof -
  have h: "org_admin_attr obj_role_only = None" by (simp add: obj_role_only_def)
  have g: "(ROLE_ORGANIZATION_ADMIN \<in> set (group_names db_role_only (usr_pk obj_role_only))) = True"
    by (simp add: group_names_def db_role_only_def obj_role_only_def ROLE_ORGANIZATION_ADMIN_def)
  from is_org_admin_cached [OF h, of db_role_only db_no_users]
  have a: "fst (is_org_admin db_role_only obj_role_only) = True"
    and b: "org_admin_attr (snd (is_org_admin db_role_only obj_role_only))
              = Some (fst (is_org_admin db_role_only obj_role_only))"
    and c: "is_org_admin db_no_users (snd (is_org_admin db_role_only obj_role_only))
         = (fst (is_org_admin db_role_only obj_role_only), snd (is_org_admin db_role_only obj_role_only))"
    unfolding g by blast+
  from b have b': "org_admin_attr (snd (is_org_admin db_role_only obj_role_only)) = Some True"
    unfolding a .
  from c have c': "is_org_admin db_no_users (snd (is_org_admin db_role_only obj_role_only))
       = (True, snd (is_org_admin db_role_only obj_role_only))"
    unfolding a .
  from h a b' c' show ?thesis by blast
qed

section \<open>Invitation tokens\<close>

text \<open>
  C2, as stated, fails when the token is redeemed: for a token whose email belongs to a
  user, \<open>validate_invitation_token\<close> raises the same error as for a token that does not
  decode.
\<close>

theorem used_token_counterexample:
  "getitem claims_invitation ''email'' = Inr (JStr ''ann@example.com'')
   \<and> email_exists db_role_only (JStr ''ann@example.com'') = True
   \<and> validate_invitation_token db_role_only initial_ann ''tok'' (Inr claims_invitation)
       = Inl (ValidationError ''Token is not valid.'')
   \<and> validate_invitation_token db_role_only initial_ann ''tok'' (Inl DecodeError)
       = Inl (ValidationError ''Token is not valid.'')"
  by (simp add: validate_invitation_token_def getitem_def claims_invitation_def email_exists_def
      db_role_only_def obj_role_only_def core_user.truncate_def isinstance_DecodeError_def)

text \<open>
  C2, amended: for a token whose claimed email belongs to an existing user,
  \<open>invite_check\<close> answers 401 with "Token has been used.", an answer it gives neither for
  an expired token nor for one that does not decode, and redeeming the token through
  \<open>validate_invitation_token\<close> fails with the validation error "Token is not valid.".
\<close>

theorem used_token_rejected:
  "getitem decoded ''email'' = Inr em \<Longrightarrow> email_exists db em \<Longrightarrow>
     invite_check db (Some t) (Inr decoded)
       = Inr (Response HTTP_401_UNAUTHORIZED (Detail ''Token has been used.''))
     \<and> invite_check db (Some t) (Inr decoded) \<noteq> invite_check db (Some t) (Inl ExpiredSignatureError)
     \<and> invite_check db (Some t) (Inr decoded) \<noteq> invite_check db (Some t) (Inl DecodeError)
     \<and> invite_check db (Some t) (Inr decoded) \<noteq> invite_check db (Some t) (Inl InvalidSignatureError)
     \<and> validate_invitation_token db initial_data t (Inr decoded)
         = Inl (ValidationError ''Token is not valid.'')"
  by (simp add: invite_check_def validate_invitation_token_def isinstance_DecodeError_def)

theorem used_token_rejected_witness:
  "getitem claims_invitation ''email'' = Inr (JStr ''ann@example.com'')
   \<and> email_exists db_role_only (JStr ''ann@example.com'')
   \<and> invite_check db_role_only (Some ''tok'') (Inr claims_invitation)
       = Inr (Response HTTP_401_UNAUTHORIZED (Detail ''Token has been used.''))
   \<and> validate_invitation_token db_role_only initial_ann ''tok'' (Inr claims_invitation)
       = Inl (ValidationError ''Token is not valid.'')"
proof -
  have h1: "getitem claims_invitation ''email'' = Inr (JStr ''ann@example.com'')"
    by (simp add: getitem_def claims_invitation_def)
  have h2: "email_exists db_role_only (JStr ''ann@example.com'')"
    by (simp add: email_exists_def db_role_only_def obj_role_only_def core_user.truncate_def)
  from used_token_rejected [OF h1 h2, of "''tok''" initial_ann] h1 h2 show ?thesis by blast
qed




section \<open>Invitations\<close>

lemma is_valid_length:
  "is_valid env (Some emails) = Inr r \<Longrightarrow> r = emails \<and> 1 \<le> length emails \<and> length emails \<le> 10"
  by (auto simp: is_valid_def Suc_le_eq split: if_splits)

lemma is_valid_rejects:
  "emails = [] \<or> 10 < length emails \<Longrightarrow> \<exists>msg. is_valid env (Some emails) = Inl (ValidationError msg)"
  by (auto simp: is_valid_def)

text \<open>
  C9. \<open>invite\<close> accepts only a list of 1 to 10 addresses: for an empty list and for a list
  of more than 10, it raises a \<open>ValidationError\<close> and the effects are unchanged, no token
  minted and no message sent; and whenever it answers, the list had 1 to 10 entries.
\<close>

theorem invite_length_bounds:
  "(emails = [] \<or> 10 < length emails \<longrightarrow>
      (\<exists>msg. invite env db organization (Some emails) fx = (Inl (ValidationError msg), fx)))
   \<and> (fst (invite env db organization (Some emails) fx) = Inr r \<longrightarrow>
        1 \<le> length emails \<and> length emails \<le> 10)"
proof -
  have a: "\<exists>msg. invite env db organization (Some emails) fx = (Inl (ValidationError msg), fx)"
    if "emails = [] \<or> 10 < length emails"
  proof -
    from is_valid_rejects [OF that, of env] obtain msg
      where "is_valid env (Some emails) = Inl (ValidationError msg)" by blast
    then show ?thesis by (simp add: invite_def)
  qed
  have b: "1 \<le> length emails \<and> length emails \<le> 10"
    if ok: "fst (invite env db organization (Some emails) fx) = Inr r"
  proof (cases "is_valid env (Some emails)")
    case (Inl e)
    with ok show ?thesis by (simp add: invite_def)
  next
    case (Inr es)
    then show ?thesis using is_valid_length by blast
  qed
  from a b show ?thesis by blast
qed

lemma demo_invite_two:
  "invite demo_invite_env db_role_only None (Some [''ann@example.com'', ''new@example.com'']) no_effects
     = (Inr (Response HTTP_200_OK (Invitations ''The invitations were sent successfully.''
               [''https://app.example.com/register/?token=token-for-new@example.com''])),
        \<lparr>minted = [''token-for-new@example.com''],
         outbox = [SendInviteEmail ''new@example.com'' ''Application Access''
                     \<lparr>invitation_link = ''https://app.example.com/register/?token=token-for-new@example.com'',
                      org_admin_name = ''Ann'', organization_name = []\<rparr>
                     ''email/coreuser/invitation.txt'' ''email/coreuser/invitation.html'']\<rparr>)"
  by (simp add: invite_def is_valid_def perform_invite_def demo_invite_env_def db_role_only_def
      obj_role_only_def core_user.truncate_def no_effects_def Let_def)

theorem invite_length_bounds_witness:
  "(\<exists>msg. invite demo_invite_env db_role_only None (Some []) no_effects
            = (Inl (ValidationError msg), no_effects))
   \<and> 10 < length eleven_emails
   \<and> (\<exists>msg. invite demo_invite_env db_role_only None (Some eleven_emails) no_effects
            = (Inl (ValidationError msg), no_effects))
   \<and> (\<exists>r. fst (invite demo_invite_env db_role_only None
                 (Some [''ann@example.com'', ''new@example.com'']) no_effects) = Inr r)
   \<and> 1 \<le> length [''ann@example.com'', ''new@example.com'']
   \<and> length [''ann@example.com'', ''new@example.com''] \<le> 10"
proof -
  have h: "10 < length eleven_emails" by (simp add: eleven_emails_def)
  have ok: "\<exists>r. fst (invite demo_invite_env db_role_only None
                 (Some [''ann@example.com'', ''new@example.com'']) no_effects) = Inr r"
    unfolding demo_invite_two by simp
  then obtain r where r: "fst (invite demo_invite_env db_role_only None
                 (Some [''ann@example.com'', ''new@example.com'']) no_effects) = Inr r" by blast
  from invite_length_bounds [of "[]" demo_invite_env db_role_only None no_effects]
  have a: "\<exists>msg. invite demo_invite_env db_role_only None (Some []) no_effects
            = (Inl (ValidationError msg), no_effects)" by blast
  from invite_length_bounds [of eleven_emails demo_invite_env db_role_only None no_effects] h
  have b: "\<exists>msg. invite demo_invite_env db_role_only None (Some eleven_emails) no_effects
            = (Inl (ValidationError msg), no_effects)" by blast
  from invite_length_bounds [of "[''ann@example.com'', ''new@example.com'']" demo_invite_env
        db_role_only None no_effects r] r
  have c: "1 \<le> length [''ann@example.com'', ''new@example.com'']
           \<and> length [''ann@example.com'', ''new@example.com''] \<le> 10" by blast
  from a b c h ok show ?thesis by blast
qed

section \<open>The password-reset request\<close>

lemma reset_loop_delivered:
  "\<forall>u \<in> set users. \<exists>n. mailer env (reset_message env db em u) = Inr n \<Longrightarrow>
     reset_loop env db em users count fx
       = (Inr (count + sum_list (map (\<lambda>u. projr (mailer env (reset_message env db em u))) users)),
          fx\<lparr>minted := minted fx @ map (make_token env) users,
             outbox := outbox fx @ map (reset_message env db em) users\<rparr>)"
proof (induction users arbitrary: count fx)
  case Nil
  then show ?case by simp
next
  case (Cons user users)
  from Cons.prems obtain n where n: "mailer env (reset_message env db em user) = Inr n"
    by auto
  from Cons.prems have rest: "\<forall>u \<in> set users. \<exists>n. mailer env (reset_message env db em u) = Inr n"
    by simp
  show ?case
    by (simp add: n Let_def Cons.IH [OF rest])
qed

lemma sum_list_all_one:
  "\<forall>u \<in> set users. f u = (1::nat) \<Longrightarrow> sum_list (map f users) = length users"
  by (induction users) auto

lemma reset_template_own:
  assumes "filter (\<lambda>t. Some (tpl_organization t) = usr_organization u
                       \<and> tpl_type t = TEMPLATE_RESET_PASSWORD) (emailtemplates db) = tpl # rest"
  shows "reset_template env db u = Some tpl"
  by (simp add: reset_template_def qs_first_def assms)

lemma reset_template_fallback:
  assumes "filter (\<lambda>t. Some (tpl_organization t) = usr_organization u
                       \<and> tpl_type t = TEMPLATE_RESET_PASSWORD) (emailtemplates db) = []"
  shows "reset_template env db u
           = qs_first (filter (\<lambda>t. list_ex (\<lambda>org. org_pk org = tpl_organization t
                                                  \<and> org_name org = DEFAULT_ORG env)
                                            (organizations db)
                                   \<and> tpl_type t = TEMPLATE_RESET_PASSWORD)
                              (emailtemplates db))"
  by (simp add: reset_template_def qs_first_def assms)

lemma reset_message_default:
  assumes "\<forall>tpl. reset_template env db u = Some tpl \<longrightarrow> \<not> str_truthy (tpl_template tpl)"
  shows "reset_message env db em u
           = SendResetEmail em ''Reset your password''
               \<lparr>password_reset_link =
                  resetpass_url env @ uidb64 env (usr_pk u) @ ''/'' @ make_token env u @ ''/'',
                ctx_user = u\<rparr>
               ''email/coreuser/password_reset.txt'' ''email/coreuser/password_reset.html''"
  using assms
  by (cases "reset_template env db u") (simp_all add: reset_message_def reset_link_context_def Let_def)

lemma reset_message_template:
  assumes "reset_template env db u = Some tpl" and "tpl_template tpl = Some src" and "src \<noteq> []"
  shows "reset_message env db em u
           = SendEmailBody em (tpl_subject tpl)
               (render env src
                  \<lparr>password_reset_link =
                     resetpass_url env @ uidb64 env (usr_pk u) @ ''/'' @ make_token env u @ ''/'',
                   ctx_user = u\<rparr>)
               (if str_truthy (tpl_template_html tpl)
                then Some (render env (the (tpl_template_html tpl))
                       \<lparr>password_reset_link =
                          resetpass_url env @ uidb64 env (usr_pk u) @ ''/'' @ make_token env u @ ''/'',
                        ctx_user = u\<rparr>)
                else None)"
  using assms
  by (simp add: reset_message_def reset_link_context_def Let_def str_truthy_def)

text \<open>
  C6. For every email address, \<open>save\<close> goes through the active users with that address,
  in the order of their first names, mints one reset token from each and hands the
  mailer one message for each, addressed to the email and carrying the link made of the
  uid and the token of that user, in the default template or in the template of the
  user's organization; it returns the sum of what the mailer reports delivered. With no
  matching active user the result is 0, without an error and without an effect; when
  each message is delivered the count is the number of matching active users.
\<close>

theorem reset_fan_out:
  "(active_users db em = [] \<longrightarrow> save env db em fx = (Inr 0, fx))
   \<and> ((\<forall>u \<in> set (active_users db em). \<exists>n. mailer env (reset_message env db em u) = Inr n) \<longrightarrow>
        save env db em fx
          = (Inr (sum_list (map (\<lambda>u. projr (mailer env (reset_message env db em u)))
                             (active_users db em))),
             fx\<lparr>minted := minted fx @ map (make_token env) (active_users db em),
                outbox := outbox fx @ map (reset_message env db em) (active_users db em)\<rparr>))
   \<and> ((\<forall>u \<in> set (active_users db em). mailer env (reset_message env db em u) = Inr 1) \<longrightarrow>
        fst (save env db em fx) = Inr (length (active_users db em)))
   \<and> set (active_users db em)
       = set (filter (\<lambda>u. email u = em \<and> is_active u) (coreusers db))
   \<and> length (active_users db em)
       = length (filter (\<lambda>u. email u = em \<and> is_active u) (coreusers db))
   \<and> sorted (map first_name (active_users db em))
   \<and> ((\<forall>tpl. reset_template env db u = Some tpl \<longrightarrow> \<not> str_truthy (tpl_template tpl)) \<longrightarrow>
        reset_message env db em u
          = SendResetEmail em ''Reset your password''
              \<lparr>password_reset_link =
                 resetpass_url env @ uidb64 env (usr_pk u) @ ''/'' @ make_token env u @ ''/'',
               ctx_user = u\<rparr>
              ''email/coreuser/password_reset.txt'' ''email/coreuser/password_reset.html'')
   \<and> (reset_template env db u = Some tpl \<and> tpl_template tpl = Some src \<and> src \<noteq> [] \<longrightarrow>
        reset_message env db em u
          = SendEmailBody em (tpl_subject tpl)
              (render env src
                 \<lparr>password_reset_link =
                    resetpass_url env @ uidb64 env (usr_pk u) @ ''/'' @ make_token env u @ ''/'',
                  ctx_user = u\<rparr>)
              (if str_truthy (tpl_template_html tpl)
               then Some (render env (the (tpl_template_html tpl))
                      \<lparr>password_reset_link =
                         resetpass_url env @ uidb64 env (usr_pk u) @ ''/'' @ make_token env u @ ''/'',
                       ctx_user = u\<rparr>)
               else None))
   \<and> (filter (\<lambda>t. Some (tpl_organization t) = usr_organization u
                     \<and> tpl_type t = TEMPLATE_RESET_PASSWORD) (emailtemplates db) = tpl # rest \<longrightarrow>
        reset_template env db u = Some tpl)
   \<and> (filter (\<lambda>t. Some (tpl_organization t) = usr_organization u
                     \<and> tpl_type t = TEMPLATE_RESET_PASSWORD) (emailtemplates db) = [] \<longrightarrow>
        reset_template env db u
          = qs_first (filter (\<lambda>t. list_ex (\<lambda>org. org_pk org = tpl_organization t
                                                 \<and> org_name org = DEFAULT_ORG env)
                                           (organizations db)
                                  \<and> tpl_type t = TEMPLATE_RESET_PASSWORD)
                             (emailtemplates db)))"
proof -
  have a: "save env db em fx = (Inr 0, fx)" if "active_users db em = []"
    using that by (simp add: save_def)
  have b: "save env db em fx
          = (Inr (sum_list (map (\<lambda>u. projr (mailer env (reset_message env db em u)))
                             (active_users db em))),
             fx\<lparr>minted := minted fx @ map (make_token env) (active_users db em),
                outbox := outbox fx @ map (reset_message env db em) (active_users db em)\<rparr>)"
    if "\<forall>u \<in> set (active_users db em). \<exists>n. mailer env (reset_message env db em u) = Inr n"
    using reset_loop_delivered [OF that, of 0 fx] by (simp add: save_def)
  have c: "fst (save env db em fx) = Inr (length (active_users db em))"
    if one: "\<forall>u \<in> set (active_users db em). mailer env (reset_message env db em u) = Inr 1"
  proof -
    from one have ex: "\<forall>u \<in> set (active_users db em). \<exists>n. mailer env (reset_message env db em u) = Inr n"
      by blast
    from one have "\<forall>u \<in> set (active_users db em).
        projr (mailer env (reset_message env db em u)) = (1::nat)" by simp
    then have "sum_list (map (\<lambda>u. projr (mailer env (reset_message env db em u))) (active_users db em))
                 = length (active_users db em)"
      by (rule sum_list_all_one)
    with b [OF ex] show ?thesis by simp
  qed
  have d: "set (active_users db em)
             = set (filter (\<lambda>u. email u = em \<and> is_active u) (coreusers db))"
    "length (active_users db em)
             = length (filter (\<lambda>u. email u = em \<and> is_active u) (coreusers db))"
    "sorted (map first_name (active_users db em))"
    by (simp_all add: active_users_def)
  note e = reset_message_default [of env db u em]
  note f = reset_message_template [of env db u tpl src em]
  note g = reset_template_own [of u db tpl rest env]
  note h = reset_template_fallback [of u db env]
  from a b c d e f g h show ?thesis by blast
qed

lemma active_duplicates:
  "active_users db_duplicates ''dup@example.com'' = [amy, zoe]"
  by (simp add: active_users_def db_duplicates_def zoe_def yan_def amy_def)

lemma active_nobody: "active_users db_duplicates ''nobody@example.com'' = []"
  by (simp add: active_users_def db_duplicates_def zoe_def yan_def amy_def)

lemma own_templates_amy:
  "filter (\<lambda>t. Some (tpl_organization t) = usr_organization amy
               \<and> tpl_type t = TEMPLATE_RESET_PASSWORD) (emailtemplates db_duplicates) = []"
  by (simp add: db_duplicates_def amy_def)

lemma own_templates_zoe:
  "filter (\<lambda>t. Some (tpl_organization t) = usr_organization zoe
               \<and> tpl_type t = TEMPLATE_RESET_PASSWORD) (emailtemplates db_duplicates)
     = acme_reset_template # []"
  by (simp add: db_duplicates_def zoe_def acme_reset_template_def TEMPLATE_RESET_PASSWORD_def)

theorem reset_fan_out_witness:
  "active_users db_duplicates ''nobody@example.com'' = []
   \<and> save demo_reset_env db_duplicates ''nobody@example.com'' no_effects = (Inr 0, no_effects)
   \<and> active_users db_duplicates ''dup@example.com'' = [amy, zoe]
   \<and> filter (\<lambda>t. Some (tpl_organization t) = usr_organization amy
                   \<and> tpl_type t = TEMPLATE_RESET_PASSWORD) (emailtemplates db_duplicates) = []
   \<and> reset_template demo_reset_env db_duplicates amy = None
   \<and> filter (\<lambda>t. Some (tpl_organization t) = usr_organization zoe
                   \<and> tpl_type t = TEMPLATE_RESET_PASSWORD) (emailtemplates db_duplicates)
       = acme_reset_template # []
   \<and> reset_template demo_reset_env db_duplicates zoe = Some acme_reset_template
   \<and> tpl_template acme_reset_template = Some ''Reset here: ''
   \<and> reset_message demo_reset_env db_duplicates ''dup@example.com'' amy
       = SendResetEmail ''dup@example.com'' ''Reset your password''
           \<lparr>password_reset_link = ''https://app.example.com/reset/uuu/ttt/'', ctx_user = amy\<rparr>
           ''email/coreuser/password_reset.txt'' ''email/coreuser/password_reset.html''
   \<and> reset_message demo_reset_env db_duplicates ''dup@example.com'' zoe
       = SendEmailBody ''dup@example.com'' ''Acme password''
           ''Reset here: https://app.example.com/reset/u/t/'' None
   \<and> mailer demo_reset_env (reset_message demo_reset_env db_duplicates ''dup@example.com'' amy)
       = Inr 1
   \<and> mailer demo_reset_env (reset_message demo_reset_env db_duplicates ''dup@example.com'' zoe)
       = Inr 1
   \<and> save demo_reset_env db_duplicates ''dup@example.com'' no_effects
       = (Inr 2,
          \<lparr>minted = [''ttt'', ''t''],
           outbox =
             [SendResetEmail ''dup@example.com'' ''Reset your password''
                \<lparr>password_reset_link = ''https://app.example.com/reset/uuu/ttt/'', ctx_user = amy\<rparr>
                ''email/coreuser/password_reset.txt'' ''email/coreuser/password_reset.html'',
              SendEmailBody ''dup@example.com'' ''Acme password''
                ''Reset here: https://app.example.com/reset/u/t/'' None]\<rparr>)"
proof -
  note dup = reset_fan_out [of db_duplicates "''dup@example.com''" demo_reset_env no_effects]
  have s1: "mailer demo_reset_env
         (reset_message demo_reset_env db_duplicates ''dup@example.com'' amy) = Inr 1"
    and s3: "mailer demo_reset_env
         (reset_message demo_reset_env db_duplicates ''dup@example.com'' zoe) = Inr 1"
    by (simp_all add: demo_reset_env_def)
  have ex: "\<forall>u \<in> set (active_users db_duplicates ''dup@example.com'').
         \<exists>n. mailer demo_reset_env (reset_message demo_reset_env db_duplicates ''dup@example.com'' u) = Inr n"
    by (simp add: demo_reset_env_def)
  have src: "tpl_template acme_reset_template = Some ''Reset here: ''"
    by (simp add: acme_reset_template_def)
  from dup [of amy acme_reset_template "''Reset here: ''" "[]"] own_templates_amy
  have "reset_template demo_reset_env db_duplicates amy
          = qs_first (filter (\<lambda>t. list_ex (\<lambda>org. org_pk org = tpl_organization t
                                                 \<and> org_name org = DEFAULT_ORG demo_reset_env)
                                           (organizations db_duplicates)
                                  \<and> tpl_type t = TEMPLATE_RESET_PASSWORD)
                             (emailtemplates db_duplicates))" by blast
  then have template_amy: "reset_template demo_reset_env db_duplicates amy = None"
    by (simp add: db_duplicates_def demo_reset_env_def acme_reset_template_def qs_first_def)
  from dup [of zoe acme_reset_template "''Reset here: ''" "[]"] own_templates_zoe
  have template_zoe: "reset_template demo_reset_env db_duplicates zoe = Some acme_reset_template"
    by blast
  from dup [of amy acme_reset_template "''Reset here: ''"] template_amy
  have m_amy: "reset_message demo_reset_env db_duplicates ''dup@example.com'' amy
       = SendResetEmail ''dup@example.com'' ''Reset your password''
           \<lparr>password_reset_link = ''https://app.example.com/reset/uuu/ttt/'', ctx_user = amy\<rparr>
           ''email/coreuser/password_reset.txt'' ''email/coreuser/password_reset.html''"
    by (simp add: demo_reset_env_def amy_def eval_nat_numeral)
  from dup [of zoe acme_reset_template "''Reset here: ''"] template_zoe src
  have m_zoe: "reset_message demo_reset_env db_duplicates ''dup@example.com'' zoe
       = SendEmailBody ''dup@example.com'' ''Acme password''
           ''Reset here: https://app.example.com/reset/u/t/'' None"
    by (simp add: demo_reset_env_def zoe_def acme_reset_template_def str_truthy_def)
  from dup [of amy acme_reset_template "''Reset here: ''"] ex
  have full: "save demo_reset_env db_duplicates ''dup@example.com'' no_effects
     = (Inr (sum_list (map (\<lambda>u. projr (mailer demo_reset_env
                (reset_message demo_reset_env db_duplicates ''dup@example.com'' u)))
                             (active_users db_duplicates ''dup@example.com''))),
             no_effects\<lparr>minted := minted no_effects @ map (make_token demo_reset_env)
                                      (active_users db_duplicates ''dup@example.com''),
                outbox := outbox no_effects @ map (reset_message demo_reset_env db_duplicates ''dup@example.com'')
                                      (active_users db_duplicates ''dup@example.com'')\<rparr>)" by blast
  have tok: "make_token demo_reset_env amy = ''ttt''" "make_token demo_reset_env zoe = ''t''"
    by (simp_all add: demo_reset_env_def amy_def zoe_def eval_nat_numeral)
  have res: "save demo_reset_env db_duplicates ''dup@example.com'' no_effects
       = (Inr 2,
          \<lparr>minted = [''ttt'', ''t''],
           outbox =
             [SendResetEmail ''dup@example.com'' ''Reset your password''
                \<lparr>password_reset_link = ''https://app.example.com/reset/uuu/ttt/'', ctx_user = amy\<rparr>
                ''email/coreuser/password_reset.txt'' ''email/coreuser/password_reset.html'',
              SendEmailBody ''dup@example.com'' ''Acme password''
                ''Reset here: https://app.example.com/reset/u/t/'' None]\<rparr>)"
    unfolding full active_duplicates
    by (simp add: tok m_amy m_zoe no_effects_def) (simp add: demo_reset_env_def)
  from reset_fan_out [of db_duplicates "''nobody@example.com''" demo_reset_env no_effects]
    active_nobody
  have z: "save demo_reset_env db_duplicates ''nobody@example.com'' no_effects = (Inr 0, no_effects)"
    by blast
  from active_nobody z active_duplicates own_templates_amy template_amy own_templates_zoe
    template_zoe src m_amy m_zoe s1 s3 res
  show ?thesis by blast
qed

section \<open>Signup\<close>

lemma fold_max_ge: "a \<le> fold max pks (a::nat) \<and> (\<forall>p \<in> set pks. p \<le> fold max pks a)"
proof (induction pks arbitrary: a)
  case Nil
  then show ?case by simp
next
  case (Cons p pks)
  from Cons.IH [of "max p a"] show ?case by auto
qed

lemma next_pk_fresh: "next_pk pks \<notin> set pks"
proof
  assume "next_pk pks \<in> set pks"
  with fold_max_ge [of 0 pks] have "next_pk pks \<le> fold max pks 0" by blast
  then show False by (simp add: next_pk_def)
qed

lemma fold_add_group_fields:
  "usr_pk (fold (\<lambda>g u. add_group u g) gs u) = usr_pk u
   \<and> is_active (fold (\<lambda>g u. add_group u g) gs u) = is_active u
   \<and> usr_organization (fold (\<lambda>g u. add_group u g) gs u) = usr_organization u
   \<and> username (fold (\<lambda>g u. add_group u g) gs u) = username u"
  by (induction gs arbitrary: u) (simp_all add: add_group_def)

lemma fold_add_group_set:
  "set (core_groups (fold (\<lambda>g u. add_group u g) gs u)) = set (core_groups u) \<union> set (map grp_pk gs)"
  by (induction gs arbitrary: u) (auto simp: add_group_def)

lemma replace_last_row:
  "usr_pk u = usr_pk u0 \<Longrightarrow> usr_pk u0 \<notin> set (map usr_pk rows) \<Longrightarrow>
     map (\<lambda>r. if usr_pk r = usr_pk u then u else r) (rows @ [u0]) = rows @ [u]"
  by (induction rows) auto


lemma add_group_fields:
  "usr_pk (add_group u g) = usr_pk u \<and> is_active (add_group u g) = is_active u
   \<and> usr_organization (add_group u g) = usr_organization u
   \<and> username (add_group u g) = username u
   \<and> set (core_groups (add_group u g)) = insert (grp_pk g) (set (core_groups u))"
  by (auto simp: add_group_def)

lemma replace_absent_row:
  "pk \<notin> usr_pk ` set rows \<Longrightarrow> map (\<lambda>r. if usr_pk r = pk then u else r) rows = rows"
  by (induction rows) auto

lemma create_existing:
  assumes "filter (\<lambda>org. org_name org = vd_organization vd) (organizations db) = [org]"
    and "vd_username vd \<notin> set (map username (coreusers db))"
  shows "\<exists>u. create env vd db = (Inr u, db\<lparr>coreusers := coreusers db @ [u]\<rparr>)
             \<and> is_active u \<and> usr_organization u = Some (org_pk org)
             \<and> username u = vd_username vd
             \<and> set (core_groups u)
                 = set (map grp_pk (case vd_core_groups vd of None \<Rightarrow> [] | Some gs \<Rightarrow> gs))"
  using next_pk_fresh [of "map usr_pk (coreusers db)"] assms(2)
  by (simp add: create_def get_or_create_def assms(1) Let_def save_user_def
      fold_add_group_fields fold_add_group_set replace_absent_row)

lemma create_several:
  assumes "filter (\<lambda>org. org_name org = vd_organization vd) (organizations db) = o1 # o2 # os"
  shows "create env vd db = (Inl MultipleObjectsReturned, db)"
  by (simp add: create_def get_or_create_def assms)

lemma create_taken:
  assumes "vd_username vd \<in> set (map username (coreusers db))"
  shows "\<exists>e. fst (create env vd db) = Inl e"
proof (cases "filter (\<lambda>org. org_name org = vd_organization vd) (organizations db)")
  case Nil
  with assms show ?thesis by (simp add: create_def get_or_create_def Let_def)
next
  case (Cons o1 rest)
  with assms show ?thesis
    by (cases rest) (simp_all add: create_def get_or_create_def Let_def)
qed

lemma create_new:
  assumes "filter (\<lambda>org. org_name org = vd_organization vd) (organizations db) = []"
    and "vd_username vd \<notin> set (map username (coreusers db))"
    and "get_group_org_admin (snd (get_or_create env (vd_organization vd) db))
           (new_organization env (vd_organization vd) db) = Inr g"
  shows "\<exists>u. create env vd db
               = (Inr u,
                  db\<lparr>organizations := organizations db @ [new_organization env (vd_organization vd) db],
                     coregroups := coregroups db
                        @ org_post_save env (new_organization env (vd_organization vd) db),
                     coreusers := coreusers db @ [u]\<rparr>)
             \<and> is_active u
             \<and> usr_organization u = Some (org_pk (new_organization env (vd_organization vd) db))
             \<and> username u = vd_username vd
             \<and> set (core_groups u)
                 = insert (grp_pk g)
                     (set (map grp_pk (case vd_core_groups vd of None \<Rightarrow> [] | Some gs \<Rightarrow> gs)))"
  using next_pk_fresh [of "map usr_pk (coreusers db)"] assms(2,3)
  by (simp add: create_def get_or_create_def assms(1) Let_def save_user_def get_group_org_admin_def
      fold_add_group_fields fold_add_group_set replace_absent_row add_group_fields)

lemma create_new_fails:
  assumes "filter (\<lambda>org. org_name org = vd_organization vd) (organizations db) = []"
    and "get_group_org_admin (snd (get_or_create env (vd_organization vd) db))
           (new_organization env (vd_organization vd) db) = Inl e"
  shows "\<exists>e'. fst (create env vd db) = Inl e'"
  using assms(2)
  by (simp add: create_def get_or_create_def assms(1) Let_def get_group_org_admin_def)



lemma create_join_acme:
  "create demo_create_env vd_join_acme db_acme = (Inr eve, db_acme\<lparr>coreusers := [eve]\<rparr>)"
  by (simp add: create_def get_or_create_def demo_create_env_def vd_join_acme_def db_acme_def
      acme_def acme_admins_def eve_def Let_def save_user_def add_group_def next_pk_def)




text \<open>
  C10. Every user that \<open>create\<close> returns has \<open>is_active\<close> true and is the row added to
  the user table, whatever \<open>is_active\<close> the validated data carried.
\<close>

theorem created_user_is_active:
  "create env vd db = (Inr u, db') \<Longrightarrow> is_active u \<and> coreusers db' = coreusers db @ [u]"
proof -
  assume ok: "create env vd db = (Inr u, db')"
  have free: "vd_username vd \<notin> set (map username (coreusers db))"
  proof
    assume "vd_username vd \<in> set (map username (coreusers db))"
    from create_taken [OF this, of env] ok show False by simp
  qed
  show ?thesis
  proof (cases "filter (\<lambda>org. org_name org = vd_organization vd) (organizations db)")
    case Nil
    show ?thesis
    proof (cases "get_group_org_admin (snd (get_or_create env (vd_organization vd) db))
                    (new_organization env (vd_organization vd) db)")
      case (Inl e)
      from create_new_fails [OF Nil Inl] ok show ?thesis by simp
    next
      case (Inr g)
      from create_new [OF Nil free Inr] ok show ?thesis by auto
    qed
  next
    case (Cons o1 rest)
    show ?thesis
    proof (cases rest)
      case Nil
      with Cons have "filter (\<lambda>org. org_name org = vd_organization vd) (organizations db) = [o1]"
        by simp
      from create_existing [OF this free, of env] ok show ?thesis by auto
    next
      case (Cons o2 os)
      with \<open>filter (\<lambda>org. org_name org = vd_organization vd) (organizations db) = o1 # rest\<close>
      have "filter (\<lambda>org. org_name org = vd_organization vd) (organizations db) = o1 # o2 # os"
        by simp
      from create_several [OF this, of env] ok show ?thesis by simp
    qed
  qed
qed

theorem created_user_is_active_witness:
  "vd_is_active vd_join_acme = Some False
   \<and> create demo_create_env vd_join_acme db_acme = (Inr eve, db_acme\<lparr>coreusers := [eve]\<rparr>)
   \<and> is_active eve
   \<and> coreusers (db_acme\<lparr>coreusers := [eve]\<rparr>) = coreusers db_acme @ [eve]"
proof -
  have h: "vd_is_active vd_join_acme = Some False" by (simp add: vd_join_acme_def)
  from created_user_is_active [OF create_join_acme] h create_join_acme show ?thesis by blast
qed

end
